theory Spec2Isabelle
  imports Complex_Main "HOL-Library.DAList"
begin

section \<open>Anchor configuration (pytorch\_retinanet/config.py)\<close>

text \<open>
  The module-level constants of \<^verbatim>\<open>config.py\<close>. Python floats are read as real numbers;
  \<^verbatim>\<open>2 ** (1 / 3)\<close> is the real power. The first entry of every size group is the
  integer \<^verbatim>\<open>x\<close> itself, so it is exact in either reading.
\<close>

definition ANCHOR_SIZES :: "real list list" where
  "ANCHOR_SIZES = map (\<lambda>x. [x, x * 2 powr (1 / 3), x * 2 powr (2 / 3)]) [32, 64, 128, 256, 512]"

definition ANCHOR_STRIDES :: "int list" where
  "ANCHOR_STRIDES = [8, 16, 32, 64, 128]"

definition ANCHOR_OFFSET :: real where
  "ANCHOR_OFFSET = 0"

definition ANCHOR_ASPECT_RATIOS :: "real list" where
  "ANCHOR_ASPECT_RATIOS = [1 / 2, 1, 2]"


section \<open>Python values used by model.py\<close>

text \<open>
  Exceptions are values. An error is an exception together with where it was raised:
  \<open>Raised\<close> by a \<^verbatim>\<open>raise\<close> statement of model.py itself, or \<open>Propagated\<close> out of Python
  or of a library that model.py calls (an attribute that was never assigned, an index out
  of range, a missing key, an argument a library constructor refuses).
\<close>

datatype exc =
    ValueError string
  | AttributeError string
  | IndexError
  | KeyError string
  | TypeError string

datatype error = Raised exc | Propagated exc

text \<open>Keyword arguments taken from the configuration file, values as written there.\<close>

type_synonym kwargs = "(string \<times> string) list"

text \<open>\<^verbatim>\<open>xs[i]\<close> for a non-negative literal index: out of range raises.\<close>

definition getitem :: "'a list \<Rightarrow> nat \<Rightarrow> error + 'a" where
  "getitem xs i = (if i < length xs then Inr (xs ! i) else Inl (Propagated IndexError))"

text \<open>\<^verbatim>\<open>str(i)\<close>, as an f-string or \<^verbatim>\<open>format\<close> prints an int: its decimal digits.\<close>

fun digits :: "nat \<Rightarrow> string" where
  "digits n = (if n < 10 then [''0123456789'' ! n] else digits (n div 10) @ [''0123456789'' ! (n mod 10)])"

declare digits.simps [simp del]

definition str_int :: "int \<Rightarrow> string" where
  "str_int i = (if i < 0 then CHR ''-'' # digits (nat (- i)) else digits (nat i))"

text \<open>
  A dict keeps its keys distinct and in insertion order: the type \<open>('k, 'v) alist\<close>.
  \<open>dict\<close> is what a dict comprehension (or \<^verbatim>\<open>dict(pairs)\<close>) builds from the pairs it
  is fed, in order: a repeated key keeps its first position and takes the later value.
\<close>

definition items :: "('k, 'v) alist \<Rightarrow> ('k \<times> 'v) list" where
  "items d = DAList.impl_of d"

definition py_values :: "('k, 'v) alist \<Rightarrow> 'v list" where
  "py_values d = map snd (DAList.impl_of d)"

definition dict :: "('k \<times> 'v) list \<Rightarrow> ('k, 'v) alist" where
  "dict kvs = fold (\<lambda>(k, v) d. DAList.update k v d) kvs DAList.empty"

text \<open>\<^verbatim>\<open>d[k]\<close>: a missing key raises.\<close>

definition dict_getitem :: "(string, 'v) alist \<Rightarrow> string \<Rightarrow> error + 'v" where
  "dict_getitem d k = (case DAList.lookup d k of None \<Rightarrow> Inl (Propagated (KeyError k)) | Some v \<Rightarrow> Inr v)"

text \<open>
  A tensor is its flattened data. \<^verbatim>\<open>.item()\<close> is defined on one-element tensors only;
  on any other tensor torch 1.x, which model.py is written for, raises this \<open>ValueError\<close>.
\<close>

datatype tensor = Tensor "real list"

fun item :: "tensor \<Rightarrow> error + real" where
  "item (Tensor [x]) = Inr x"
| "item (Tensor xs) = Inl (Propagated (ValueError ''only one element tensors can be converted to Python scalars''))"

text \<open>
  A number as the steps handle it: a Python int, a Python float, a numpy float64 (an
  entry of the evaluator's \<^verbatim>\<open>stats\<close> array) or a one-element tensor, each with the real
  number it stands for.
\<close>

datatype scalar = PyInt int | PyFloat real | NumpyFloat real | TensorV real

fun value_of :: "scalar \<Rightarrow> real" where
  "value_of (PyInt i) = of_int i"
| "value_of (PyFloat x) = x"
| "value_of (NumpyFloat x) = x"
| "value_of (TensorV x) = x"


section \<open>Objects built by the libraries model.py calls\<close>

text \<open>
  The dataset loaders, transforms, the detector and the COCO evaluator are not part of
  model.py. An object they build is written as the call that built it; what such an
  object answers when asked (\<^verbatim>\<open>__len__\<close>, the detector's outputs, the evaluator's
  statistics) is a parameter, collected in the record \<open>lib\<close> below. torch's
  \<^verbatim>\<open>DataLoader\<close> constructor is written out with the arguments it refuses.
\<close>

datatype transform =
    ToTensor
  | RandomHorizontalFlip real
  | load_obj string kwargs

datatype transforms =
    Compose "transform list"
  | compose_transforms "transform list option"

datatype dataset =
    get_coco string string transforms
  | get_pascal string string string transforms

text \<open>
  What an attribute such as \<^verbatim>\<open>self.test_ds\<close> holds: the constant \<^verbatim>\<open>False\<close> or a
  dataset object.
\<close>

datatype pyval = PyFalse | PyObj dataset

datatype coco_api = get_coco_api_from_dataset pyval

datatype retinanet = Retinanet kwargs

type_synonym target = "(string, tensor) alist"
type_synonym detection = "(string, tensor) alist"
type_synonym batch = "tensor list \<times> target list \<times> string list"

text \<open>
  The COCO evaluator: the ground truth it was built over, its IoU types, and the calls
  made on it so far (it accumulates results in place).
\<close>

datatype ev_call = Update "(real, detection) alist" | Accumulate | Summarize

record evaluator =
  coco_gt :: coco_api
  iou_types :: "string list"
  calls :: "ev_call list"

definition CocoEvaluator :: "coco_api \<Rightarrow> string list \<Rightarrow> evaluator" where
  "CocoEvaluator coco types = \<lparr>coco_gt = coco, iou_types = types, calls = []\<rparr>"

definition update :: "(real, detection) alist \<Rightarrow> evaluator \<Rightarrow> evaluator" where
  "update res ev = ev\<lparr>calls := calls ev @ [Update res]\<rparr>"

definition accumulate :: "evaluator \<Rightarrow> evaluator" where
  "accumulate ev = ev\<lparr>calls := calls ev @ [Accumulate]\<rparr>"

definition summarize :: "evaluator \<Rightarrow> evaluator" where
  "summarize ev = ev\<lparr>calls := calls ev @ [Summarize]\<rparr>"

record dataloader =
  dl_dataset :: pyval
  batch_size :: int
  shuffle :: bool
  dl_args :: kwargs

datatype optimizer_obj = Optimizer string "string list" kwargs

datatype scheduler_obj = Scheduler string optimizer_obj kwargs

record scheduler_dict =
  sd_scheduler :: scheduler_obj
  sd_interval :: string
  sd_frequency :: nat

text \<open>
  The answers of the library objects.
  \<^item> \<open>len d\<close>: \<^verbatim>\<open>d.__len__()\<close>, the number of images the dataset found on disk.
  \<^item> \<open>forward net images targets\<close>: \<^verbatim>\<open>self.model(images, targets)\<close>, the loss mapping.
  \<^item> \<open>predict net images\<close>: \<^verbatim>\<open>self.model.predict(images)\<close>, one detection per image.
  \<^item> \<open>parameters net\<close>: the detector's parameters with their \<^verbatim>\<open>requires_grad\<close> flag.
  \<^item> \<open>stats ev t\<close>: \<^verbatim>\<open>ev.coco_eval[t].stats\<close> in the evaluator state \<open>ev\<close>.
  \<^item> \<open>cls_name p\<close>: \<^verbatim>\<open>__class__.__name__\<close> of an object built from the class at path \<open>p\<close>.
  \<^item> \<open>rnd x\<close>: the number of the loss tensors' floating-point type (float32) that \<open>x\<close>
    is rounded to; a number of that type is left as it is. Tensor arithmetic rounds after
    every operation.

  The detector returns its losses as one-element tensors: the loss mapping holds the
  value of each.
\<close>

record lib =
  len :: "dataset \<Rightarrow> nat"
  forward :: "retinanet \<Rightarrow> tensor list \<Rightarrow> target list \<Rightarrow> (string, real) alist"
  predict :: "retinanet \<Rightarrow> tensor list \<Rightarrow> detection list"
  parameters :: "retinanet \<Rightarrow> (string \<times> bool) list"
  stats :: "evaluator \<Rightarrow> string \<Rightarrow> real list"
  cls_name :: "string \<Rightarrow> string"
  rnd :: "real \<Rightarrow> real"

text \<open>
  \<^verbatim>\<open>acc + t\<close> for a loss tensor \<^verbatim>\<open>t\<close>: a tensor again, the exact sum rounded. The
  builtin \<^verbatim>\<open>sum\<close> is a left fold of \<^verbatim>\<open>+\<close> that starts from the int 0, so the sum of
  no value at all is that int.
\<close>

definition py_add :: "lib \<Rightarrow> scalar \<Rightarrow> real \<Rightarrow> scalar" where
  "py_add L acc x = TensorV (rnd L (value_of acc + x))"

definition py_sum :: "lib \<Rightarrow> real list \<Rightarrow> scalar" where
  "py_sum L xs = foldl (py_add L) (PyInt 0) xs"

text \<open>
  \<^verbatim>\<open>torch.as_tensor\<close>: a tensor is returned as it is; an int and a numpy float64 become
  a tensor of the same value; a Python float becomes a float32 tensor, and is rounded.
\<close>

fun as_tensor :: "lib \<Rightarrow> scalar \<Rightarrow> scalar" where
  "as_tensor L (TensorV x) = TensorV x"
| "as_tensor L (PyInt i) = TensorV (of_int i)"
| "as_tensor L (NumpyFloat x) = TensorV x"
| "as_tensor L (PyFloat x) = TensorV (rnd L x)"

text \<open>
  Truth value of an attribute. \<^verbatim>\<open>False\<close> is falsy. The dataset classes define
  \<^verbatim>\<open>__len__\<close> (model.py calls it on \<^verbatim>\<open>loader.dataset\<close>), so Python takes a dataset
  object for true exactly when its length is not 0.
\<close>

fun truthy :: "lib \<Rightarrow> pyval \<Rightarrow> bool" where
  "truthy L PyFalse = False"
| "truthy L (PyObj d) = (len L d \<noteq> 0)"

text \<open>\<^verbatim>\<open>v.__len__()\<close>: \<^verbatim>\<open>False\<close> has no such method.\<close>

fun py_len :: "lib \<Rightarrow> pyval \<Rightarrow> error + nat" where
  "py_len L PyFalse = Inl (Propagated (AttributeError ''__len__''))"
| "py_len L (PyObj d) = Inr (len L d)"

text \<open>
  The constructor \<^verbatim>\<open>DataLoader(ds, bs, shuffle=sh, collate_fn=collate_fn, **kw)\<close>. With
  \<^verbatim>\<open>shuffle=True\<close> it builds a random sampler first, which takes the length of the
  dataset and refuses an empty one; then the batch sampler refuses a batch size that is
  not positive. Both refusals are torch's \<open>ValueError\<close>.
\<close>

definition RandomSampler :: "lib \<Rightarrow> pyval \<Rightarrow> error + unit" where
  "RandomSampler L ds =
    (case ds of
       PyFalse \<Rightarrow> Inl (Propagated (TypeError ''object of type 'bool' has no len()''))
     | PyObj d \<Rightarrow>
        if len L d = 0 then Inl (Propagated (ValueError ''num_samples should be a positive integer value, but got num_samples=0''))
        else Inr ())"

definition DataLoader :: "lib \<Rightarrow> pyval \<Rightarrow> int \<Rightarrow> bool \<Rightarrow> kwargs \<Rightarrow> error + dataloader" where
  "DataLoader L ds bs sh kw =
    (case (if sh then RandomSampler L ds else Inr ()) of
       Inl e \<Rightarrow> Inl e
     | Inr u \<Rightarrow>
        if bs \<le> 0 then
          Inl (Propagated (ValueError (''batch_size should be a positive integer value, but got batch_size='' @ str_int bs)))
        else Inr \<lparr>dl_dataset = ds, batch_size = bs, shuffle = sh, dl_args = kw\<rparr>)"


section \<open>The configuration (hparams)\<close>

record dataset_cfg =
  kind :: string
  root_dir :: string
  trn_paths :: "string list"
  valid_paths :: "string list"
  test_paths :: "string list option"

record obj_cfg =
  class_name :: string
  params :: kwargs

record scheduler_cfg = obj_cfg +
  interval :: string
  frequency :: nat

record dataloader_cfg =
  train_bs :: int
  valid_bs :: int
  test_bs :: int
  args :: kwargs

record config =
  model :: kwargs
  dataset :: dataset_cfg
  pascal_transforms :: "obj_cfg list"
  optimizer :: obj_cfg
  scheduler :: scheduler_cfg
  dataloader :: dataloader_cfg

text \<open>
  Truth value of \<^verbatim>\<open>data_params.test_paths\<close>: a missing key reads as \<^verbatim>\<open>None\<close>, and
  an empty list is falsy as well.
\<close>

fun truthy_paths :: "string list option \<Rightarrow> bool" where
  "truthy_paths None = False"
| "truthy_paths (Some []) = False"
| "truthy_paths (Some (p # ps)) = True"


section \<open>RetinaNetModel\<close>

text \<open>
  A log line is an f-string: literal pieces and interpolated values.
\<close>

datatype fpart =
    Lit string
  | FStr string
  | FNat nat
  | FInt int
  | FOpt "string option"

type_synonym log_line = "fpart list"

text \<open>
  The attributes of the module. An attribute that no method has assigned yet is \<open>None\<close>;
  reading it raises \<open>AttributeError\<close>. \<open>fancy_logger\<close> holds the lines logged so far.
\<close>

record module =
  hparams :: config
  fancy_logger :: "log_line list"
  self_model :: retinanet
  trn_ds :: "pyval option"
  val_ds :: "pyval option"
  test_ds :: "pyval option"
  self_optimizer :: "optimizer_obj option"
  self_scheduler :: "scheduler_dict option"
  test_evaluator :: "evaluator option"

definition info :: "log_line \<Rightarrow> module \<Rightarrow> module" where
  "info line self = self\<lparr>fancy_logger := fancy_logger self @ [line]\<rparr>"

definition getattr :: "string \<Rightarrow> 'a option \<Rightarrow> error + 'a" where
  "getattr name v = (case v of None \<Rightarrow> Inl (Propagated (AttributeError name)) | Some x \<Rightarrow> Inr x)"

definition get_model :: "config \<Rightarrow> retinanet" where
  "get_model hp = Retinanet (model hp)"

definition init :: "config \<Rightarrow> module" where
  "init hp = \<lparr>hparams = hp, fancy_logger = [], self_model = get_model hp,
     trn_ds = None, val_ds = None, test_ds = None,
     self_optimizer = None, self_scheduler = None, test_evaluator = None\<rparr>"

text \<open>
  \<^verbatim>\<open>prepare_data\<close>. The result is the exception raised, if any, and the module as the
  method leaves it: an attribute assigned before an exception stays assigned.
\<close>

definition prepare_data :: "module \<Rightarrow> (error + unit) \<times> module" where
  "prepare_data self0 =
    (let data_params = dataset (hparams self0);
         self1 = info [Lit ''DATASET_KIND : '', FStr (kind data_params)] self0
     in
     if kind data_params = ''coco'' then
       (let trn_tfms = Compose [ToTensor, RandomHorizontalFlip (1 / 2)];
            val_tfms = Compose [ToTensor];
            self2 = self1\<lparr>trn_ds := Some (PyObj (get_coco (root_dir data_params) ''train'' trn_tfms))\<rparr>;
            self3 = self2\<lparr>val_ds := Some (PyObj (get_coco (root_dir data_params) ''val'' val_tfms))\<rparr>;
            self4 = self3\<lparr>test_ds := Some PyFalse\<rparr>
        in (Inr (), self4))
     else if kind data_params = ''pascal'' then
       (let trn_tfms = compose_transforms
              (Some (map (\<lambda>i. load_obj (class_name i) (params i)) (pascal_transforms (hparams self0))));
            val_tfms = compose_transforms None
        in
        (case getitem (trn_paths data_params) 0 of Inl e \<Rightarrow> (Inl e, self1) | Inr t0 \<Rightarrow>
        (case getitem (trn_paths data_params) 1 of Inl e \<Rightarrow> (Inl e, self1) | Inr t1 \<Rightarrow>
        (let self2 = self1\<lparr>trn_ds := Some (PyObj (get_pascal t0 t1 ''train'' trn_tfms))\<rparr> in
        (case getitem (valid_paths data_params) 0 of Inl e \<Rightarrow> (Inl e, self2) | Inr v0 \<Rightarrow>
        (case getitem (valid_paths data_params) 1 of Inl e \<Rightarrow> (Inl e, self2) | Inr v1 \<Rightarrow>
        (let self3 = self2\<lparr>val_ds := Some (PyObj (get_pascal v0 v1 ''test'' val_tfms))\<rparr> in
        if truthy_paths (test_paths data_params) then
          (case getitem (the (test_paths data_params)) 0 of Inl e \<Rightarrow> (Inl e, self3) | Inr p0 \<Rightarrow>
          (case getitem (the (test_paths data_params)) 1 of Inl e \<Rightarrow> (Inl e, self3) | Inr p1 \<Rightarrow>
           (Inr (), self3\<lparr>test_ds := Some (PyObj (get_pascal p0 p1 ''test'' val_tfms))\<rparr>)))
        else (Inr (), self3\<lparr>test_ds := Some PyFalse\<rparr>))))))))
     else (Inl (Raised (ValueError ''DATASET_KIND not supported'')), self1))"


text \<open>
  \<^verbatim>\<open>configure_optimizers\<close>: the optimizer over the trainable parameters, the scheduler
  wrapped in a dict with its interval and frequency, four log lines.
\<close>

definition configure_optimizers ::
  "lib \<Rightarrow> module \<Rightarrow> (error + optimizer_obj list \<times> scheduler_dict list) \<times> module" where
  "configure_optimizers L self0 =
    (let hp = hparams self0;
         ps = map fst (filter snd (parameters L (self_model self0)));
         opt = Optimizer (class_name (optimizer hp)) ps (params (optimizer hp));
         sch = \<lparr>sd_scheduler = Scheduler (class_name (scheduler hp)) opt (params (scheduler hp)),
                sd_interval = interval (scheduler hp),
                sd_frequency = frequency (scheduler hp)\<rparr>;
         self1 = self0\<lparr>self_optimizer := Some opt, self_scheduler := Some sch\<rparr>;
         self2 = info [Lit ''OPTIMIZER_NAME : '', FStr (cls_name L (class_name (optimizer hp)))] self1;
         self3 = info [Lit ''LEARNING_RATE: '', FOpt (map_of (params (optimizer hp)) ''lr'')] self2;
         self4 = info [Lit ''WEIGHT_DECAY: '', FOpt (map_of (params (optimizer hp)) ''weight_decay'')] self3;
         self5 = info [Lit ''LR_SCHEDULER_NAME : '', FStr (cls_name L (class_name (scheduler hp)))] self4
     in (Inr ([opt], [sch]), self5))"

definition train_dataloader :: "lib \<Rightarrow> module \<Rightarrow> (error + dataloader) \<times> module" where
  "train_dataloader L self0 =
    (let bs = train_bs (dataloader (hparams self0)) in
     case getattr ''trn_ds'' (trn_ds self0) of
       Inl e \<Rightarrow> (Inl e, self0)
     | Inr ds \<Rightarrow> (DataLoader L ds bs True (args (dataloader (hparams self0))), self0))"

definition val_dataloader :: "lib \<Rightarrow> module \<Rightarrow> (error + dataloader) \<times> module" where
  "val_dataloader L self0 =
    (let bs = valid_bs (dataloader (hparams self0)) in
     case getattr ''val_ds'' (val_ds self0) of
       Inl e \<Rightarrow> (Inl e, self0)
     | Inr ds \<Rightarrow> (DataLoader L ds bs False (args (dataloader (hparams self0))), self0))"

text \<open>
  \<^verbatim>\<open>test_dataloader\<close>. \<open>test_loader\<close> is the \<^verbatim>\<open>if not self.test_ds\<close> statement that
  picks the dataset and the batch size; the rest builds the COCO ground truth over the
  loader's dataset and assigns a new evaluator to \<^verbatim>\<open>self.test_evaluator\<close>.
\<close>

definition test_loader :: "lib \<Rightarrow> module \<Rightarrow> error + dataloader" where
  "test_loader L self0 =
    (case getattr ''test_ds'' (test_ds self0) of
       Inl e \<Rightarrow> Inl e
     | Inr t \<Rightarrow>
        if \<not> truthy L t then
          (let bs = valid_bs (dataloader (hparams self0)) in
           case getattr ''val_ds'' (val_ds self0) of
             Inl e \<Rightarrow> Inl e
           | Inr v \<Rightarrow> DataLoader L v bs False (args (dataloader (hparams self0))))
        else
          (let bs = test_bs (dataloader (hparams self0)) in
           DataLoader L t bs False (args (dataloader (hparams self0)))))"

definition test_dataloader :: "lib \<Rightarrow> module \<Rightarrow> (error + dataloader) \<times> module" where
  "test_dataloader L self0 =
    (case test_loader L self0 of
       Inl e \<Rightarrow> (Inl e, self0)
     | Inr loader \<Rightarrow>
        (let self1 = info [Lit ''Converting dataset annotations in 'test_dataset' to COCO format for inference ...''] self0;
             coco = get_coco_api_from_dataset (dl_dataset loader);
             self2 = self1\<lparr>test_evaluator := Some (CocoEvaluator coco [''bbox''])\<rparr>
         in case py_len L (dl_dataset loader) of
              Inl e \<Rightarrow> (Inl e, self2)
            | Inr n \<Rightarrow> (Inr loader, info [Lit ''Conversion finished, num images: '', FNat n] self2)))"

text \<open>
  The steps. Each unpacks the batch, rebuilds every target dict with a comprehension and
  calls the detector; the values they return are records of the dict's entries.
\<close>

record train_out =
  loss :: scalar
  log_dict :: "(string, real) alist"
  progress_bar :: "(string, real) alist"

record val_out =
  val_loss :: scalar
  val_log :: "(string, scalar) alist"
  val_progress_bar :: "(string, scalar) alist"

record test_out =
  AP :: scalar
  test_log :: "(string, scalar) alist"
  test_progress_bar :: "(string, scalar) alist"

definition copy_targets :: "target list \<Rightarrow> target list" where
  "copy_targets targets = map (\<lambda>t. dict (items t)) targets"

definition training_step :: "lib \<Rightarrow> module \<Rightarrow> batch \<Rightarrow> nat \<Rightarrow> (error + train_out) \<times> module" where
  "training_step L self0 batch batch_idx =
    (case batch of (images, targets0, _) \<Rightarrow>
      (let targets = copy_targets targets0;
           loss_dict = forward L (self_model self0) images targets;
           losses = py_sum L (py_values loss_dict)
       in (Inr \<lparr>loss = losses, log_dict = loss_dict, progress_bar = loss_dict\<rparr>, self0)))"

definition validation_step :: "lib \<Rightarrow> module \<Rightarrow> batch \<Rightarrow> nat \<Rightarrow> (error + val_out) \<times> module" where
  "validation_step L self0 batch batch_idx =
    (case batch of (images, targets0, _) \<Rightarrow>
      (let targets = copy_targets targets0;
           loss_dict = forward L (self_model self0) images targets;
           loss1 = py_sum L (py_values loss_dict);
           loss2 = as_tensor L loss1;
           logs = dict [(''val_loss'', loss2)]
       in (Inr \<lparr>val_loss = loss2, val_log = logs, val_progress_bar = logs\<rparr>, self0)))"

text \<open>
  The comprehension \<^verbatim>\<open>{t["image_id"].item(): o for t, o in zip(targets, outputs)}\<close>:
  the pairs in order, stopping at the first key that cannot be computed.
\<close>

fun res_pairs :: "(target \<times> detection) list \<Rightarrow> error + (real \<times> detection) list" where
  "res_pairs [] = Inr []"
| "res_pairs ((t, out) # rest) =
    (case dict_getitem t ''image_id'' of
       Inl e \<Rightarrow> Inl e
     | Inr i \<Rightarrow>
        (case item i of
           Inl e \<Rightarrow> Inl e
         | Inr k \<Rightarrow>
            (case res_pairs rest of
               Inl e \<Rightarrow> Inl e
             | Inr kvs \<Rightarrow> Inr ((k, out) # kvs))))"

definition test_step :: "lib \<Rightarrow> module \<Rightarrow> batch \<Rightarrow> nat \<Rightarrow> (error + unit) \<times> module" where
  "test_step L self0 batch batch_idx =
    (case batch of (images, targets0, _) \<Rightarrow>
      (let targets = copy_targets targets0;
           outputs = predict L (self_model self0) images
       in case res_pairs (zip targets outputs) of
            Inl e \<Rightarrow> (Inl e, self0)
          | Inr kvs \<Rightarrow>
             (case getattr ''test_evaluator'' (test_evaluator self0) of
                Inl e \<Rightarrow> (Inl e, self0)
              | Inr ev \<Rightarrow> (Inr (), self0\<lparr>test_evaluator := Some (update (dict kvs) ev)\<rparr>))))"

definition test_epoch_end :: "lib \<Rightarrow> module \<Rightarrow> unit list \<Rightarrow> (error + test_out) \<times> module" where
  "test_epoch_end L self0 outputs =
    (let self1 = info [Lit ''Preparing results for COCO format ...''] self0;
         self2 = info [Lit ''Evaluating predictions ...''] self1
     in case getattr ''test_evaluator'' (test_evaluator self2) of
          Inl e \<Rightarrow> (Inl e, self2)
        | Inr ev \<Rightarrow>
           (let ev1 = accumulate ev;
                ev2 = summarize ev1;
                self3 = self2\<lparr>test_evaluator := Some ev2\<rparr>
            in if ''bbox'' \<in> set (iou_types ev2) then
                 (case getitem (stats L ev2 ''bbox'') 0 of
                    Inl e \<Rightarrow> (Inl e, self3)
                  | Inr metric0 \<Rightarrow>
                     (let metric = as_tensor L (NumpyFloat metric0);
                          logs = dict [(''AP'', metric)]
                      in (Inr \<lparr>AP = metric, test_log = logs, test_progress_bar = logs\<rparr>, self3)))
               else (Inl (Propagated (KeyError ''bbox'')), self3)))"


section \<open>LogCallback\<close>

text \<open>
  The callback's own attributes are the four timestamps (seconds, \<open>None\<close> until
  assigned); \<open>now\<close> is what \<^verbatim>\<open>datetime.datetime.now().replace(microsecond=0)\<close> reads.
\<close>

record trainer =
  max_epochs :: nat
  global_step :: nat

record callback =
  train_start :: "int option"
  train_end :: "int option"
  test_start :: "int option"
  test_end :: "int option"

definition on_fit_start :: "callback \<Rightarrow> trainer \<Rightarrow> module \<Rightarrow> (error + unit) \<times> callback \<times> module" where
  "on_fit_start cb tr pl_module =
    (let eps = max_epochs tr
     in (Inr (), cb, info [Lit ''MAX_EPOCHS : '', FNat eps] pl_module))"

definition on_train_start ::
  "lib \<Rightarrow> int \<Rightarrow> callback \<Rightarrow> trainer \<Rightarrow> module \<Rightarrow> (error + unit) \<times> callback \<times> module" where
  "on_train_start L now cb tr pl_module =
    (let cb1 = cb\<lparr>train_start := Some now\<rparr> in
     case train_dataloader L pl_module of
       (Inl e, m1) \<Rightarrow> (Inl e, cb1, m1)
     | (Inr loader, m1) \<Rightarrow>
        (case py_len L (dl_dataset loader) of
           Inl e \<Rightarrow> (Inl e, cb1, m1)
         | Inr n \<Rightarrow>
            (let m2 = info [Lit ''Training on '', FNat n, Lit '' images''] m1;
                 m3 = info [Lit ''Training from iteration '', FNat (global_step tr), Lit '' : ''] m2
             in (Inr (), cb1, m3))))"

definition on_train_end ::
  "int \<Rightarrow> callback \<Rightarrow> trainer \<Rightarrow> module \<Rightarrow> (error + unit) \<times> callback \<times> module" where
  "on_train_end now cb tr pl_module =
    (let cb1 = cb\<lparr>train_end := Some now\<rparr> in
     case getattr ''train_start'' (train_start cb1) of
       Inl e \<Rightarrow> (Inl e, cb1, pl_module)
     | Inr t0 \<Rightarrow> (Inr (), cb1, info [Lit '' Total compute time : '', FInt (now - t0)] pl_module))"

definition on_test_start ::
  "lib \<Rightarrow> int \<Rightarrow> callback \<Rightarrow> trainer \<Rightarrow> module \<Rightarrow> (error + unit) \<times> callback \<times> module" where
  "on_test_start L now cb tr pl_module =
    (let cb1 = cb\<lparr>test_start := Some now\<rparr> in
     case test_dataloader L pl_module of
       (Inl e, m1) \<Rightarrow> (Inl e, cb1, m1)
     | (Inr loader, m1) \<Rightarrow>
        (case py_len L (dl_dataset loader) of
           Inl e \<Rightarrow> (Inl e, cb1, m1)
         | Inr n \<Rightarrow> (Inr (), cb1, info [Lit ''Start Inference on '', FNat n, Lit '' images''] m1)))"

definition on_test_end ::
  "int \<Rightarrow> callback \<Rightarrow> trainer \<Rightarrow> module \<Rightarrow> (error + unit) \<times> callback \<times> module" where
  "on_test_end now cb tr pl_module =
    (let cb1 = cb\<lparr>test_end := Some now\<rparr> in
     case getattr ''test_start'' (test_start cb1) of
       Inl e \<Rightarrow> (Inl e, cb1, pl_module)
     | Inr t0 \<Rightarrow> (Inr (), cb1, info [Lit '' Total inference time : '', FInt (now - t0)] pl_module))"



section \<open>The sum of a loss mapping, as the specification words it\<close>

text \<open>
  The specification speaks of the sum of the per-term loss values of the mapping the
  detector returns: the sum, over the keys of the mapping, of the value stored under each,
  as a real number.
\<close>

definition sum_of_values :: "(string, real) alist \<Rightarrow> real" where
  "sum_of_values d = (\<Sum>k \<in> fst ` set (items d). the (DAList.lookup d k))"

text \<open>
  No addition rounds: starting from \<open>acc\<close> and adding the values in order, every exact
  partial sum is a number of the tensors' floating-point type.
\<close>

fun no_rounding :: "lib \<Rightarrow> real \<Rightarrow> real list \<Rightarrow> bool" where
  "no_rounding L acc [] = True"
| "no_rounding L acc (x # xs) = (rnd L (acc + x) = acc + x \<and> no_rounding L (acc + x) xs)"


section \<open>Example inputs\<close>

text \<open>
  A configuration with dataset kind \<open>k\<close> and test paths \<open>tp\<close>, and the same with all batch
  sizes 0; library answers where every dataset holds \<open>n\<close> images; a batch of one image; a
  trainer and a fresh callback.
\<close>

definition example_cfg :: "string \<Rightarrow> string list option \<Rightarrow> config" where
  "example_cfg k tp =
    \<lparr>model = [(''backbone_kind'', ''resnet18'')],
     dataset = \<lparr>kind = k, root_dir = ''data/coco'',
                trn_paths = [''data/train/annots'', ''data/train/images''],
                valid_paths = [''data/valid/annots'', ''data/valid/images''],
                test_paths = tp\<rparr>,
     pascal_transforms = [\<lparr>class_name = ''albumentations.HorizontalFlip'', params = [(''p'', ''0.5'')]\<rparr>],
     optimizer = \<lparr>class_name = ''torch.optim.SGD'', params = [(''lr'', ''0.001''), (''weight_decay'', ''0.0001'')]\<rparr>,
     scheduler = \<lparr>class_name = ''torch.optim.lr_scheduler.StepLR'', params = [(''step_size'', ''10'')],
                  interval = ''epoch'', frequency = 1\<rparr>,
     dataloader = \<lparr>train_bs = 4, valid_bs = 8, test_bs = 16, args = [(''num_workers'', ''0'')]\<rparr>\<rparr>"


definition example_lib :: "nat \<Rightarrow> lib" where
  "example_lib n =
    \<lparr>len = (\<lambda>d. n),
     forward = (\<lambda>net images targets. dict [(''classification_loss'', 1 / 2), (''regression_loss'', 1 / 4)]),
     predict = (\<lambda>net images. map (\<lambda>i. dict [(''boxes'', i)]) images),
     parameters = (\<lambda>net. [(''backbone.weight'', False), (''head.weight'', True)]),
     stats = (\<lambda>ev t. if Summarize \<in> set (calls ev) then [1 / 2, 3 / 4] else []),
     cls_name = (\<lambda>p. p),
     rnd = (\<lambda>x. if x = 100000001 then 100000000 else x)\<rparr>"

text \<open>
  The same library with a detector that returns the given losses. Its \<open>rnd\<close> is float32
  rounding at the one sum these examples reach that is not a float32: 100000001 lies
  between the neighbours 100000000 and 100000008 and is rounded to the first.
\<close>

definition example_lib_losses :: "(string \<times> real) list \<Rightarrow> lib" where
  "example_lib_losses kvs = (example_lib 5)\<lparr>forward := (\<lambda>net images targets. dict kvs)\<rparr>"

definition example_batch :: batch where
  "example_batch =
    ([Tensor [0, 1, 2, 3]],
     [dict [(''boxes'', Tensor [1, 2, 30, 40]), (''labels'', Tensor [3]), (''image_id'', Tensor [7])]],
     [''img7''])"



text \<open>
  The module after \<^verbatim>\<open>prepare_data\<close>, and the module of a COCO run after
  \<^verbatim>\<open>prepare_data\<close>, \<^verbatim>\<open>test_dataloader\<close> and one \<^verbatim>\<open>test_step\<close>: its evaluator holds
  the detections of one image.
\<close>

definition example_prepared :: "string \<Rightarrow> string list option \<Rightarrow> module" where
  "example_prepared k tp = snd (prepare_data (init (example_cfg k tp)))"

definition example_tested_module :: module where
  "example_tested_module =
     snd (test_step (example_lib 5)
            (snd (test_dataloader (example_lib 5) (example_prepared ''coco'' None)))
            example_batch 0)"


section \<open>Properties\<close>

subsection \<open>Dicts and sums\<close>

lemma alist_update_fresh:
  "k \<notin> fst ` set al \<Longrightarrow> AList.update k v al = al @ [(k, v)]"
  by (induction al) auto

lemma impl_of_fold_update:
  "distinct (map fst kvs) \<Longrightarrow> fst ` set kvs \<inter> fst ` set (DAList.impl_of d) = {} \<Longrightarrow>
   DAList.impl_of (fold (\<lambda>(k, v) d. DAList.update k v d) kvs d) = DAList.impl_of d @ kvs"
proof (induction kvs arbitrary: d)
  case Nil
  then show ?case by simp
next
  case (Cons kv kvs)
  obtain k v where kv: "kv = (k, v)" by (cases kv)
  from Cons.prems kv have fresh: "k \<notin> fst ` set (DAList.impl_of d)" by auto
  have step: "DAList.impl_of (DAList.update k v d) = DAList.impl_of d @ [(k, v)]"
    by (simp add: DAList.update.rep_eq alist_update_fresh [OF fresh])
  from Cons.prems kv have "distinct (map fst kvs)"
    and "fst ` set kvs \<inter> fst ` set (DAList.impl_of (DAList.update k v d)) = {}"
    by (auto simp: step)
  from Cons.IH [OF this] show ?case by (simp add: kv step)
qed

lemma items_dict: "distinct (map fst kvs) \<Longrightarrow> items (dict kvs) = kvs"
  unfolding dict_def items_def
  by (subst impl_of_fold_update) (simp_all add: DAList.empty.rep_eq)

lemma dict_items: "dict (items t) = t"
proof -
  have "items (dict (items t)) = items t"
    by (rule items_dict) (simp add: items_def)
  then show ?thesis by (simp add: items_def DAList.alist_eq_iff)
qed

lemma copy_targets_id: "copy_targets targets = targets"
  by (simp add: copy_targets_def dict_items)

lemma sum_list_snd_distinct:
  "distinct (map fst xs) \<Longrightarrow> sum_list (map snd xs) = (\<Sum>k \<in> fst ` set xs. the (map_of xs k))"
  for xs :: "('k \<times> real) list"
proof (induction xs)
  case Nil
  then show ?case by simp
next
  case (Cons kv xs)
  obtain k v where kv: "kv = (k, v)" by (cases kv)
  from Cons.prems kv have fresh: "k \<notin> fst ` set xs" and d: "distinct (map fst xs)" by auto
  have "(\<Sum>j \<in> fst ` set xs. the (map_of ((k, v) # xs) j)) = (\<Sum>j \<in> fst ` set xs. the (map_of xs j))"
    using fresh by (intro sum.cong) auto
  with fresh Cons.IH [OF d] show ?case by (simp add: kv)
qed

lemma sum_of_values_sum_list: "sum_of_values d = sum_list (py_values d)"
  by (simp add: py_values_def sum_of_values_def items_def DAList.lookup.rep_eq sum_list_snd_distinct)

lemma foldl_py_add_exact:
  "no_rounding L (value_of a) xs \<Longrightarrow> value_of (foldl (py_add L) a xs) = value_of a + sum_list xs"
  by (induction xs arbitrary: a) (simp_all add: py_add_def)

lemma py_sum_exact:
  "no_rounding L 0 (py_values d) \<Longrightarrow> value_of (py_sum L (py_values d)) = sum_of_values d"
  using foldl_py_add_exact [of L "PyInt 0" "py_values d"]
  by (simp add: py_sum_def sum_of_values_sum_list)

lemma py_sum_kind: "py_sum L xs = PyInt 0 \<or> (\<exists>y. py_sum L xs = TensorV y)"
  by (cases xs rule: rev_cases) (simp_all add: py_sum_def py_add_def)

lemma value_of_as_tensor_py_sum: "value_of (as_tensor L (py_sum L xs)) = value_of (py_sum L xs)"
  using py_sum_kind [of L xs] by auto


subsection \<open>The configuration is only read\<close>

lemma hparams_prepare_data: "hparams (snd (prepare_data self)) = hparams self"
  by (simp add: prepare_data_def Let_def info_def split: sum.splits)

lemma hparams_configure_optimizers: "hparams (snd (configure_optimizers L self)) = hparams self"
  by (simp add: configure_optimizers_def Let_def info_def)

lemma hparams_train_dataloader: "hparams (snd (train_dataloader L self)) = hparams self"
  by (simp add: train_dataloader_def Let_def split: sum.splits)

lemma hparams_val_dataloader: "hparams (snd (val_dataloader L self)) = hparams self"
  by (simp add: val_dataloader_def Let_def split: sum.splits)

lemma hparams_test_dataloader: "hparams (snd (test_dataloader L self)) = hparams self"
  by (simp add: test_dataloader_def Let_def info_def split: sum.splits)

lemma hparams_training_step: "hparams (snd (training_step L self batch i)) = hparams self"
  by (simp add: training_step_def Let_def split: prod.splits)

lemma hparams_validation_step: "hparams (snd (validation_step L self batch i)) = hparams self"
  by (simp add: validation_step_def Let_def split: prod.splits)

lemma hparams_test_step: "hparams (snd (test_step L self batch i)) = hparams self"
  by (simp add: test_step_def Let_def split: prod.splits sum.splits)

lemma hparams_test_epoch_end: "hparams (snd (test_epoch_end L self outputs)) = hparams self"
  by (simp add: test_epoch_end_def Let_def info_def split: sum.splits)


subsection \<open>Exceptions\<close>

lemma getattr_not_raised: "getattr name v \<noteq> Inl (Raised e)"
  by (simp add: getattr_def split: option.splits)

lemma getitem_not_raised: "getitem xs i \<noteq> Inl (Raised e)"
  by (simp add: getitem_def)

lemma item_not_raised: "item t \<noteq> Inl (Raised e)"
  by (cases t rule: item.cases) simp_all

lemma py_len_not_raised: "py_len L v \<noteq> Inl (Raised e)"
  by (cases v) simp_all

lemma DataLoader_not_raised: "DataLoader L ds bs sh kw \<noteq> Inl (Raised e)"
  by (simp add: DataLoader_def RandomSampler_def split: pyval.splits)

lemma res_pairs_not_raised: "res_pairs xs \<noteq> Inl (Raised e)"
proof (induction xs)
  case Nil
  then show ?case by simp
next
  case (Cons p xs)
  obtain t out where p: "p = (t, out)" by (cases p)
  from Cons.IH item_not_raised [of _ e] show ?case
    by (auto simp: p dict_getitem_def split: option.splits sum.splits)
qed

lemma test_loader_not_raised: "test_loader L self \<noteq> Inl (Raised e)"
  using DataLoader_not_raised [of L _ _ False _ e]
  by (auto simp: test_loader_def getattr_def Let_def split: option.splits)

lemma train_dataloader_not_raised: "fst (train_dataloader L self) \<noteq> Inl (Raised e)"
  using DataLoader_not_raised [of L _ _ True _ e]
  by (auto simp: train_dataloader_def getattr_def Let_def split: option.splits)

lemma val_dataloader_not_raised: "fst (val_dataloader L self) \<noteq> Inl (Raised e)"
  using DataLoader_not_raised [of L _ _ False _ e]
  by (auto simp: val_dataloader_def getattr_def Let_def split: option.splits)

lemma test_dataloader_not_raised: "fst (test_dataloader L self) \<noteq> Inl (Raised e)"
  using test_loader_not_raised [of L self e] py_len_not_raised [of L _ e]
  by (auto simp: test_dataloader_def Let_def split: sum.splits)

text \<open>
  The one \<^verbatim>\<open>raise\<close> statement of model.py is in \<^verbatim>\<open>prepare_data\<close>: no other method and
  no callback ends in an exception that model.py itself raised.
\<close>

lemma only_one_raise:
  "fst (configure_optimizers L self) \<noteq> Inl (Raised e)
   \<and> fst (train_dataloader L self) \<noteq> Inl (Raised e)
   \<and> fst (val_dataloader L self) \<noteq> Inl (Raised e)
   \<and> fst (test_dataloader L self) \<noteq> Inl (Raised e)
   \<and> fst (training_step L self batch i) \<noteq> Inl (Raised e)
   \<and> fst (validation_step L self batch i) \<noteq> Inl (Raised e)
   \<and> fst (test_step L self batch i) \<noteq> Inl (Raised e)
   \<and> fst (test_epoch_end L self outputs) \<noteq> Inl (Raised e)
   \<and> fst (on_fit_start cb tr self) \<noteq> Inl (Raised e)
   \<and> fst (on_train_start L now cb tr self) \<noteq> Inl (Raised e)
   \<and> fst (on_train_end now cb tr self) \<noteq> Inl (Raised e)
   \<and> fst (on_test_start L now cb tr self) \<noteq> Inl (Raised e)
   \<and> fst (on_test_end now cb tr self) \<noteq> Inl (Raised e)"
proof (intro conjI)
  show "fst (configure_optimizers L self) \<noteq> Inl (Raised e)"
    by (simp add: configure_optimizers_def Let_def)
  show "fst (train_dataloader L self) \<noteq> Inl (Raised e)"
    by (rule train_dataloader_not_raised)
  show "fst (val_dataloader L self) \<noteq> Inl (Raised e)"
    by (rule val_dataloader_not_raised)
  show "fst (test_dataloader L self) \<noteq> Inl (Raised e)"
    by (rule test_dataloader_not_raised)
  show "fst (training_step L self batch i) \<noteq> Inl (Raised e)"
    by (simp add: training_step_def Let_def split: prod.splits)
  show "fst (validation_step L self batch i) \<noteq> Inl (Raised e)"
    by (simp add: validation_step_def Let_def split: prod.splits)
  show "fst (test_step L self batch i) \<noteq> Inl (Raised e)"
    using res_pairs_not_raised [of _ e]
    by (auto simp: test_step_def getattr_def Let_def split: prod.splits sum.splits option.splits)
  show "fst (test_epoch_end L self outputs) \<noteq> Inl (Raised e)"
    by (simp add: test_epoch_end_def getattr_def getitem_def Let_def split: option.splits)
  show "fst (on_fit_start cb tr self) \<noteq> Inl (Raised e)"
    by (simp add: on_fit_start_def Let_def)
  show "fst (on_train_start L now cb tr self) \<noteq> Inl (Raised e)"
    using py_len_not_raised [of L _ e] train_dataloader_not_raised [of L self e]
    by (auto simp: on_train_start_def Let_def split: prod.splits sum.splits)
  show "fst (on_train_end now cb tr self) \<noteq> Inl (Raised e)"
    by (simp add: on_train_end_def getattr_def Let_def split: option.splits)
  show "fst (on_test_start L now cb tr self) \<noteq> Inl (Raised e)"
    using py_len_not_raised [of L _ e] test_dataloader_not_raised [of L self e]
    by (auto simp: on_test_start_def Let_def split: prod.splits sum.splits)
  show "fst (on_test_end now cb tr self) \<noteq> Inl (Raised e)"
    by (simp add: on_test_end_def getattr_def Let_def split: option.splits)
qed


subsection \<open>Dataset selection\<close>

text \<open>
  C1. \<^verbatim>\<open>prepare_data\<close> raises the configuration error (the \<open>ValueError\<close> with the text
  "DATASET\_KIND not supported") exactly when the configured kind is neither "coco" nor
  "pascal", and it raises nothing else itself. When the error is raised the module is left
  as it was but for the one log line: \<open>trn_ds\<close>, \<open>val_ds\<close> and \<open>test_ds\<close> have not been
  assigned. It is the only exception the code of model.py raises itself: whatever
  exception another method or a callback ends in has come out of Python or of a library.
\<close>

theorem prepare_data_config_error:
  "(fst (prepare_data self) = Inl (Raised (ValueError ''DATASET_KIND not supported''))
      \<longleftrightarrow> kind (dataset (hparams self)) \<noteq> ''coco'' \<and> kind (dataset (hparams self)) \<noteq> ''pascal'')
   \<and> ((\<exists>e. fst (prepare_data self) = Inl (Raised e))
      \<longleftrightarrow> kind (dataset (hparams self)) \<noteq> ''coco'' \<and> kind (dataset (hparams self)) \<noteq> ''pascal'')
   \<and> (kind (dataset (hparams self)) \<noteq> ''coco'' \<and> kind (dataset (hparams self)) \<noteq> ''pascal'' \<longrightarrow>
        snd (prepare_data self)
          = self\<lparr>fancy_logger := fancy_logger self @ [[Lit ''DATASET_KIND : '', FStr (kind (dataset (hparams self)))]]\<rparr>
        \<and> trn_ds (snd (prepare_data self)) = trn_ds self
        \<and> val_ds (snd (prepare_data self)) = val_ds self
        \<and> test_ds (snd (prepare_data self)) = test_ds self)
   \<and> (\<forall>e. fst (configure_optimizers L self) \<noteq> Inl (Raised e)
          \<and> fst (train_dataloader L self) \<noteq> Inl (Raised e)
          \<and> fst (val_dataloader L self) \<noteq> Inl (Raised e)
          \<and> fst (test_dataloader L self) \<noteq> Inl (Raised e)
          \<and> fst (training_step L self batch i) \<noteq> Inl (Raised e)
          \<and> fst (validation_step L self batch i) \<noteq> Inl (Raised e)
          \<and> fst (test_step L self batch i) \<noteq> Inl (Raised e)
          \<and> fst (test_epoch_end L self outputs) \<noteq> Inl (Raised e)
          \<and> fst (on_fit_start cb tr self) \<noteq> Inl (Raised e)
          \<and> fst (on_train_start L now cb tr self) \<noteq> Inl (Raised e)
          \<and> fst (on_train_end now cb tr self) \<noteq> Inl (Raised e)
          \<and> fst (on_test_start L now cb tr self) \<noteq> Inl (Raised e)
          \<and> fst (on_test_end now cb tr self) \<noteq> Inl (Raised e))"
proof -
  have here: "(fst (prepare_data self) = Inl (Raised (ValueError ''DATASET_KIND not supported''))
      \<longleftrightarrow> kind (dataset (hparams self)) \<noteq> ''coco'' \<and> kind (dataset (hparams self)) \<noteq> ''pascal'')
   \<and> ((\<exists>e. fst (prepare_data self) = Inl (Raised e))
      \<longleftrightarrow> kind (dataset (hparams self)) \<noteq> ''coco'' \<and> kind (dataset (hparams self)) \<noteq> ''pascal'')
   \<and> (kind (dataset (hparams self)) \<noteq> ''coco'' \<and> kind (dataset (hparams self)) \<noteq> ''pascal'' \<longrightarrow>
        snd (prepare_data self)
          = self\<lparr>fancy_logger := fancy_logger self @ [[Lit ''DATASET_KIND : '', FStr (kind (dataset (hparams self)))]]\<rparr>
        \<and> trn_ds (snd (prepare_data self)) = trn_ds self
        \<and> val_ds (snd (prepare_data self)) = val_ds self
        \<and> test_ds (snd (prepare_data self)) = test_ds self)"
    by (auto simp: prepare_data_def Let_def info_def getitem_def split: sum.splits)
  from here only_one_raise [of L self _ batch i outputs cb tr now] show ?thesis
    by blast
qed

theorem prepare_data_config_error_witness:
  "kind (dataset (hparams (init (example_cfg ''voc'' None)))) \<noteq> ''coco''
   \<and> kind (dataset (hparams (init (example_cfg ''voc'' None)))) \<noteq> ''pascal''
   \<and> fst (prepare_data (init (example_cfg ''voc'' None))) = Inl (Raised (ValueError ''DATASET_KIND not supported''))
   \<and> trn_ds (snd (prepare_data (init (example_cfg ''voc'' None)))) = None
   \<and> val_ds (snd (prepare_data (init (example_cfg ''voc'' None)))) = None
   \<and> test_ds (snd (prepare_data (init (example_cfg ''voc'' None)))) = None"
  using prepare_data_config_error [of "init (example_cfg ''voc'' None)"]
  by (simp add: init_def example_cfg_def)

text \<open>
  C2. With dataset kind "coco", \<^verbatim>\<open>prepare_data\<close> succeeds; the training dataset is
  \<^verbatim>\<open>get_coco\<close> on \<open>root_dir\<close> with image set "train", the validation dataset is
  \<^verbatim>\<open>get_coco\<close> on \<open>root_dir\<close> with image set "val", and the test dataset is \<^verbatim>\<open>False\<close>,
  which is falsy.
\<close>

theorem prepare_data_coco:
  assumes "kind (dataset (hparams self)) = ''coco''"
  shows "fst (prepare_data self) = Inr ()
    \<and> trn_ds (snd (prepare_data self))
        = Some (PyObj (get_coco (root_dir (dataset (hparams self))) ''train''
                        (Compose [ToTensor, RandomHorizontalFlip (1 / 2)])))
    \<and> val_ds (snd (prepare_data self))
        = Some (PyObj (get_coco (root_dir (dataset (hparams self))) ''val'' (Compose [ToTensor])))
    \<and> test_ds (snd (prepare_data self)) = Some PyFalse
    \<and> \<not> truthy L PyFalse"
  using assms by (simp add: prepare_data_def Let_def info_def)

theorem prepare_data_coco_witness:
  "kind (dataset (hparams (init (example_cfg ''coco'' None)))) = ''coco''
   \<and> fst (prepare_data (init (example_cfg ''coco'' None))) = Inr ()
   \<and> trn_ds (snd (prepare_data (init (example_cfg ''coco'' None))))
       = Some (PyObj (get_coco ''data/coco'' ''train'' (Compose [ToTensor, RandomHorizontalFlip (1 / 2)])))
   \<and> val_ds (snd (prepare_data (init (example_cfg ''coco'' None))))
       = Some (PyObj (get_coco ''data/coco'' ''val'' (Compose [ToTensor])))
   \<and> test_ds (snd (prepare_data (init (example_cfg ''coco'' None)))) = Some PyFalse"
  using prepare_data_coco [of "init (example_cfg ''coco'' None)" "example_lib 5"]
  by (simp add: init_def example_cfg_def)

text \<open>
  C3, as the code has it. With dataset kind "pascal" and two entries each in
  \<open>trn_paths\<close> and \<open>valid_paths\<close>: when \<open>test_paths\<close> holds at least two entries,
  \<^verbatim>\<open>prepare_data\<close> succeeds and the test dataset is \<^verbatim>\<open>get_pascal\<close> on the first two
  test paths in mode "test" with the validation transforms, an object that is truthy
  exactly when it holds at least one image; when \<open>test_paths\<close> is absent or empty, the
  test dataset is \<^verbatim>\<open>False\<close>.
\<close>

theorem prepare_data_pascal_test_ds:
  assumes "kind (dataset (hparams self)) = ''pascal''"
      and "2 \<le> length (trn_paths (dataset (hparams self)))"
      and "2 \<le> length (valid_paths (dataset (hparams self)))"
  shows "(\<forall>p0 p1 ps. test_paths (dataset (hparams self)) = Some (p0 # p1 # ps) \<longrightarrow>
            fst (prepare_data self) = Inr ()
            \<and> test_ds (snd (prepare_data self))
                = Some (PyObj (get_pascal p0 p1 ''test'' (compose_transforms None)))
            \<and> (truthy L (PyObj (get_pascal p0 p1 ''test'' (compose_transforms None)))
                 \<longleftrightarrow> len L (get_pascal p0 p1 ''test'' (compose_transforms None)) \<noteq> 0))
       \<and> (\<not> truthy_paths (test_paths (dataset (hparams self))) \<longrightarrow>
            fst (prepare_data self) = Inr ()
            \<and> test_ds (snd (prepare_data self)) = Some PyFalse
            \<and> \<not> truthy L PyFalse)"
  using assms by (auto simp: prepare_data_def Let_def info_def getitem_def)

theorem prepare_data_pascal_test_ds_witness:
  "fst (prepare_data (init (example_cfg ''pascal'' (Some [''data/test/annots'', ''data/test/images''])))) = Inr ()
   \<and> test_ds (snd (prepare_data (init (example_cfg ''pascal'' (Some [''data/test/annots'', ''data/test/images''])))))
       = Some (PyObj (get_pascal ''data/test/annots'' ''data/test/images'' ''test'' (compose_transforms None)))
   \<and> truthy (example_lib 5) (PyObj (get_pascal ''data/test/annots'' ''data/test/images'' ''test'' (compose_transforms None)))
   \<and> fst (prepare_data (init (example_cfg ''pascal'' None))) = Inr ()
   \<and> test_ds (snd (prepare_data (init (example_cfg ''pascal'' None)))) = Some PyFalse
   \<and> test_ds (snd (prepare_data (init (example_cfg ''pascal'' (Some []))))) = Some PyFalse"
  using prepare_data_pascal_test_ds
          [of "init (example_cfg ''pascal'' (Some [''data/test/annots'', ''data/test/images'']))" "example_lib 5"]
        prepare_data_pascal_test_ds [of "init (example_cfg ''pascal'' None)" "example_lib 5"]
        prepare_data_pascal_test_ds [of "init (example_cfg ''pascal'' (Some []))" "example_lib 5"]
  by (simp add: init_def example_cfg_def example_lib_def)

text \<open>
  C3 as stated fails twice. A truthy \<open>test_paths\<close> with a single entry makes
  \<^verbatim>\<open>data_params.test_paths[1]\<close> raise \<open>IndexError\<close>, and \<open>test_ds\<close> is never assigned. And
  with two test paths whose dataset holds no image, the test dataset is an object with
  \<^verbatim>\<open>__len__() == 0\<close>, which Python takes for false.
\<close>

theorem prepare_data_pascal_test_ds_counterexample:
  "kind (dataset (example_cfg ''pascal'' (Some [''data/test.csv'']))) = ''pascal''
   \<and> truthy_paths (test_paths (dataset (example_cfg ''pascal'' (Some [''data/test.csv'']))))
   \<and> fst (prepare_data (init (example_cfg ''pascal'' (Some [''data/test.csv''])))) = Inl (Propagated IndexError)
   \<and> test_ds (snd (prepare_data (init (example_cfg ''pascal'' (Some [''data/test.csv''])))) ) = None
   \<and> truthy_paths (test_paths (dataset (example_cfg ''pascal'' (Some [''data/test/annots'', ''data/test/images'']))))
   \<and> test_ds (snd (prepare_data (init (example_cfg ''pascal'' (Some [''data/test/annots'', ''data/test/images''])))))
       = Some (PyObj (get_pascal ''data/test/annots'' ''data/test/images'' ''test'' (compose_transforms None)))
   \<and> \<not> truthy (example_lib 0)
         (the (test_ds (snd (prepare_data (init (example_cfg ''pascal'' (Some [''data/test/annots'', ''data/test/images''])))))))"
  by (simp add: prepare_data_def Let_def info_def getitem_def init_def example_cfg_def example_lib_def)

subsection \<open>The steps\<close>

text \<open>
  C4, as the code has it. For every batch, \<^verbatim>\<open>training_step\<close> returns a result whose
  loss is what the builtin \<^verbatim>\<open>sum\<close> makes of the values of the loss mapping the detector
  returns for the batch's images and targets: the values added from left to right,
  starting from 0, each addition rounded to the tensors' floating-point type. The mapping
  itself is returned under the two logging keys. Whenever no addition rounds, the loss is
  the sum of the values.
\<close>

theorem training_step_loss:
  "fst (training_step L self (images, targets, ids) batch_idx)
     = Inr \<lparr>loss = py_sum L (py_values (forward L (self_model self) images targets)),
            log_dict = forward L (self_model self) images targets,
            progress_bar = forward L (self_model self) images targets\<rparr>
   \<and> (no_rounding L 0 (py_values (forward L (self_model self) images targets)) \<longrightarrow>
        value_of (py_sum L (py_values (forward L (self_model self) images targets)))
          = sum_of_values (forward L (self_model self) images targets))"
  by (simp add: training_step_def Let_def copy_targets_id py_sum_exact)

theorem training_step_loss_witness:
  "no_rounding (example_lib 5) 0 [1 / 2, 1 / 4]
   \<and> fst (training_step (example_lib 5) (init (example_cfg ''coco'' None)) example_batch 0)
       = Inr \<lparr>loss = TensorV (3 / 4),
              log_dict = dict [(''classification_loss'', 1 / 2), (''regression_loss'', 1 / 4)],
              progress_bar = dict [(''classification_loss'', 1 / 2), (''regression_loss'', 1 / 4)]\<rparr>
   \<and> sum_of_values (dict [(''classification_loss'', 1 / 2), (''regression_loss'', 1 / 4)]) = 3 / 4"
proof -
  have vals: "py_values (dict [(''classification_loss'', 1 / 2), (''regression_loss'', 1 / 4 :: real)]) = [1 / 2, 1 / 4]"
    using items_dict [of "[(''classification_loss'', 1 / 2), (''regression_loss'', 1 / 4 :: real)]"]
    by (simp add: py_values_def items_def)
  have fw: "forward (example_lib 5) = (\<lambda>net images targets. dict [(''classification_loss'', 1 / 2), (''regression_loss'', 1 / 4)])"
    and r: "rnd (example_lib 5) = (\<lambda>x. if x = 100000001 then 100000000 else x)"
    by (simp_all add: example_lib_def)
  show ?thesis
    using training_step_loss [of "example_lib 5" "init (example_cfg ''coco'' None)"
        "[Tensor [0, 1, 2, 3]]"
        "[dict [(''boxes'', Tensor [1, 2, 30, 40]), (''labels'', Tensor [3]), (''image_id'', Tensor [7])]]"
        "[''img7'']" 0]
    by (simp add: example_batch_def fw r vals py_sum_def py_add_def)
qed

text \<open>
  C4 as stated fails where an addition rounds. For the losses 100000000, 1 and
  -100000000 the step adds 100000000 + 1, which float32 rounds back to 100000000, and
  returns the loss 0; the sum of the three values is 1.
\<close>

theorem training_step_loss_counterexample:
  "fst (training_step
         (example_lib_losses [(''classification_loss'', 100000000), (''regression_loss'', 1), (''aux_loss'', - 100000000)])
         (init (example_cfg ''coco'' None)) example_batch 0)
     = Inr \<lparr>loss = TensorV 0,
            log_dict = dict [(''classification_loss'', 100000000), (''regression_loss'', 1), (''aux_loss'', - 100000000)],
            progress_bar = dict [(''classification_loss'', 100000000), (''regression_loss'', 1), (''aux_loss'', - 100000000)]\<rparr>
   \<and> sum_of_values (dict [(''classification_loss'', 100000000), (''regression_loss'', 1), (''aux_loss'', - 100000000)]) = 1
   \<and> value_of (TensorV 0)
       \<noteq> sum_of_values (dict [(''classification_loss'', 100000000), (''regression_loss'', 1), (''aux_loss'', - 100000000)])"
proof -
  have vals: "py_values (dict [(''classification_loss'', 100000000), (''regression_loss'', 1), (''aux_loss'', - 100000000 :: real)])
      = [100000000, 1, - 100000000]"
    using items_dict [of "[(''classification_loss'', 100000000), (''regression_loss'', 1), (''aux_loss'', - 100000000 :: real)]"]
    by (simp add: py_values_def items_def)
  show ?thesis
    by (simp add: training_step_def Let_def example_batch_def example_lib_losses_def example_lib_def
        vals py_sum_def py_add_def sum_of_values_sum_list)
qed

text \<open>
  C7, as the code has it. On the same batch and with the same detector,
  \<^verbatim>\<open>training_step\<close> and \<^verbatim>\<open>validation_step\<close> both return, and the loss of the first
  has the value of the \<open>val_loss\<close> of the second: both are the values of the loss mapping
  added from left to right, starting from 0, each addition rounded (the second wrapped by
  \<^verbatim>\<open>torch.as_tensor\<close>, which keeps the value). Whenever no addition rounds, this total is
  the sum of the mapping's values.
\<close>

theorem training_validation_same_total:
  "\<exists>r v. fst (training_step L self batch i) = Inr r
       \<and> fst (validation_step L self batch j) = Inr v
       \<and> value_of (loss r) = value_of (val_loss v)
       \<and> loss r = py_sum L (py_values (forward L (self_model self) (fst batch) (fst (snd batch))))
       \<and> val_loss v = as_tensor L (py_sum L (py_values (forward L (self_model self) (fst batch) (fst (snd batch)))))
       \<and> (no_rounding L 0 (py_values (forward L (self_model self) (fst batch) (fst (snd batch)))) \<longrightarrow>
            value_of (val_loss v) = sum_of_values (forward L (self_model self) (fst batch) (fst (snd batch))))"
  by (cases batch)
    (simp add: training_step_def validation_step_def Let_def copy_targets_id
      value_of_as_tensor_py_sum py_sum_exact)

theorem training_validation_same_total_witness:
  "no_rounding (example_lib 5) 0 [1 / 2, 1 / 4]
   \<and> (\<exists>r v. fst (training_step (example_lib 5) (init (example_cfg ''coco'' None)) example_batch 0) = Inr r
          \<and> fst (validation_step (example_lib 5) (init (example_cfg ''coco'' None)) example_batch 0) = Inr v
          \<and> value_of (loss r) = value_of (val_loss v)
          \<and> value_of (val_loss v) = 3 / 4)"
proof -
  have vals: "py_values (dict [(''classification_loss'', 1 / 2), (''regression_loss'', 1 / 4 :: real)]) = [1 / 2, 1 / 4]"
    using items_dict [of "[(''classification_loss'', 1 / 2), (''regression_loss'', 1 / 4 :: real)]"]
    by (simp add: py_values_def items_def)
  have fw: "forward (example_lib 5) = (\<lambda>net images targets. dict [(''classification_loss'', 1 / 2), (''regression_loss'', 1 / 4)])"
    and r: "rnd (example_lib 5) = (\<lambda>x. if x = 100000001 then 100000000 else x)"
    by (simp_all add: example_lib_def)
  have exact: "no_rounding (example_lib 5) 0 [1 / 2, 1 / 4]"
    by (simp add: r)
  have total: "sum_of_values (dict [(''classification_loss'', 1 / 2), (''regression_loss'', 1 / 4)]) = 3 / 4"
    by (simp add: sum_of_values_sum_list vals)
  from training_validation_same_total
         [of "example_lib 5" "init (example_cfg ''coco'' None)" example_batch 0 0]
  show ?thesis
    using exact by (auto simp: fw vals total)
qed

text \<open>
  C7 as stated fails in what it says the common total is. For the losses 1, 100000000
  and -100000000 \<^verbatim>\<open>validation_step\<close> adds 1 + 100000000, which float32 rounds to
  100000000, and returns the \<open>val_loss\<close> 0; the sum of the mapping's values is 1.
\<close>

theorem training_validation_same_total_counterexample:
  "fst (validation_step
         (example_lib_losses [(''classification_loss'', 1), (''regression_loss'', 100000000), (''aux_loss'', - 100000000)])
         (init (example_cfg ''coco'' None)) example_batch 0)
     = Inr \<lparr>val_loss = TensorV 0,
            val_log = dict [(''val_loss'', TensorV 0)],
            val_progress_bar = dict [(''val_loss'', TensorV 0)]\<rparr>
   \<and> sum_of_values (dict [(''classification_loss'', 1), (''regression_loss'', 100000000), (''aux_loss'', - 100000000)]) = 1
   \<and> value_of (TensorV 0)
       \<noteq> sum_of_values (dict [(''classification_loss'', 1), (''regression_loss'', 100000000), (''aux_loss'', - 100000000)])"
proof -
  have vals: "py_values (dict [(''classification_loss'', 1), (''regression_loss'', 100000000), (''aux_loss'', - 100000000 :: real)])
      = [1, 100000000, - 100000000]"
    using items_dict [of "[(''classification_loss'', 1), (''regression_loss'', 100000000), (''aux_loss'', - 100000000 :: real)]"]
    by (simp add: py_values_def items_def)
  show ?thesis
    by (simp add: validation_step_def Let_def example_batch_def example_lib_losses_def example_lib_def
        vals py_sum_def py_add_def sum_of_values_sum_list)
qed


subsection \<open>Evaluation\<close>

lemma example_tested_evaluator:
  "test_evaluator example_tested_module
     = Some \<lparr>coco_gt = get_coco_api_from_dataset (PyObj (get_coco ''data/coco'' ''val'' (Compose [ToTensor]))),
             iou_types = [''bbox''],
             calls = [Update (dict [(7, dict [(''boxes'', Tensor [0, 1, 2, 3])])])]\<rparr>"
  by (simp add: example_tested_module_def example_prepared_def test_step_def test_dataloader_def
      test_loader_def prepare_data_def init_def example_cfg_def example_lib_def example_batch_def
      Let_def info_def getattr_def DataLoader_def CocoEvaluator_def update_def copy_targets_id
      dict_getitem_def dict_def)


text \<open>
  C5. With an evaluator for the IoU type "bbox" in place, \<^verbatim>\<open>test_epoch_end\<close> calls
  \<^verbatim>\<open>accumulate\<close> and then \<^verbatim>\<open>summarize\<close> on it, and the value it returns under "AP" is
  entry 0 of the \<open>stats\<close> array the finalized evaluator holds for "bbox", as a tensor (an
  empty array has no entry 0, and indexing it raises).
\<close>

theorem test_epoch_end_metric:
  assumes "test_evaluator self = Some ev" and "''bbox'' \<in> set (iou_types ev)"
  shows "test_evaluator (snd (test_epoch_end L self outputs)) = Some (summarize (accumulate ev))
    \<and> calls (summarize (accumulate ev)) = calls ev @ [Accumulate, Summarize]
    \<and> fst (test_epoch_end L self outputs)
        = (case stats L (summarize (accumulate ev)) ''bbox'' of
             [] \<Rightarrow> Inl (Propagated IndexError)
           | s # ss \<Rightarrow> Inr \<lparr>AP = TensorV s, test_log = dict [(''AP'', TensorV s)],
                            test_progress_bar = dict [(''AP'', TensorV s)]\<rparr>)"
  using assms
  by (simp add: test_epoch_end_def Let_def info_def getattr_def getitem_def
      summarize_def accumulate_def split: list.splits)

theorem test_epoch_end_metric_witness:
  "test_evaluator example_tested_module
     = Some \<lparr>coco_gt = get_coco_api_from_dataset (PyObj (get_coco ''data/coco'' ''val'' (Compose [ToTensor]))),
             iou_types = [''bbox''],
             calls = [Update (dict [(7, dict [(''boxes'', Tensor [0, 1, 2, 3])])])]\<rparr>
   \<and> fst (test_epoch_end (example_lib 5) example_tested_module [()])
       = Inr \<lparr>AP = TensorV (1 / 2), test_log = dict [(''AP'', TensorV (1 / 2))],
              test_progress_bar = dict [(''AP'', TensorV (1 / 2))]\<rparr>
   \<and> stats (example_lib 5)
        \<lparr>coco_gt = get_coco_api_from_dataset (PyObj (get_coco ''data/coco'' ''val'' (Compose [ToTensor]))),
         iou_types = [''bbox''],
         calls = [Update (dict [(7, dict [(''boxes'', Tensor [0, 1, 2, 3])])]), Accumulate, Summarize]\<rparr>
        ''bbox'' = [1 / 2, 3 / 4]"
  using test_epoch_end_metric [OF example_tested_evaluator, of "example_lib 5" "[()]"]
    example_tested_evaluator
  by (simp add: example_lib_def summarize_def accumulate_def)


subsection \<open>The test dataloader\<close>












subsection \<open>Logging callbacks\<close>
















subsection \<open>The configuration\<close>

text \<open>
  C8. No operation of the module changes the configuration: after \<^verbatim>\<open>prepare_data\<close>,
  \<^verbatim>\<open>configure_optimizers\<close>, each of the three dataloader constructors, each of the three
  steps and \<^verbatim>\<open>test_epoch_end\<close>, whether they return or raise, \<open>hparams\<close> is what it was.
\<close>

theorem hparams_never_mutated:
  "hparams (snd (prepare_data self)) = hparams self
   \<and> hparams (snd (configure_optimizers L self)) = hparams self
   \<and> hparams (snd (train_dataloader L self)) = hparams self
   \<and> hparams (snd (val_dataloader L self)) = hparams self
   \<and> hparams (snd (test_dataloader L self)) = hparams self
   \<and> hparams (snd (training_step L self batch batch_idx)) = hparams self
   \<and> hparams (snd (validation_step L self batch batch_idx)) = hparams self
   \<and> hparams (snd (test_step L self batch batch_idx)) = hparams self
   \<and> hparams (snd (test_epoch_end L self outputs)) = hparams self"
  by (simp only: hparams_prepare_data hparams_configure_optimizers hparams_train_dataloader
      hparams_val_dataloader hparams_test_dataloader hparams_training_step hparams_validation_step
      hparams_test_step hparams_test_epoch_end simp_thms)


subsection \<open>Anchor constants\<close>

text \<open>
  C10. The anchor constants fit together: five size groups, one per stride; three sizes
  in every group, one per aspect ratio; and the first size of each group is four times
  the stride at the same position.
\<close>

theorem anchor_constants_consistent:
  "length ANCHOR_SIZES = 5
   \<and> length ANCHOR_STRIDES = length ANCHOR_SIZES
   \<and> length ANCHOR_ASPECT_RATIOS = 3
   \<and> map length ANCHOR_SIZES = replicate (length ANCHOR_STRIDES) (length ANCHOR_ASPECT_RATIOS)
   \<and> map hd ANCHOR_SIZES = map (\<lambda>s. 4 * real_of_int s) ANCHOR_STRIDES"
  by (simp add: ANCHOR_SIZES_def ANCHOR_STRIDES_def ANCHOR_ASPECT_RATIOS_def)

end
